theory Spec2Isabelle
  imports Main "HOL-Library.Word" "HOL-Library.FSet" "HOL-Library.Finite_Map"
begin

unbundle bit_operations_syntax

section \<open>Credential codec (utils.go)\<close>

text \<open>
  Go strings are byte sequences, so a Go \<open>string\<close> is an Isabelle \<open>string\<close> and
  \<open>len\<close> is \<open>length\<close>. The digest of \<open>crypto/sha256\<close> is written out in full
  (FIPS 180-4) so that \<open>HashPassword\<close> is the function the program runs; the hexadecimal
  encoding is the lower-case one of \<open>encoding/hex\<close>.
\<close>

type_synonym byte = "8 word"

definition bytes_of_string :: "string \<Rightarrow> byte list" where
  "bytes_of_string s = map (\<lambda>c. of_nat (of_char c)) s"

definition hextable :: "string" where
  "hextable = ''0123456789abcdef''"

definition hex_byte :: "byte \<Rightarrow> string" where
  "hex_byte b = [hextable ! unat (drop_bit 4 b), hextable ! unat (b AND 15)]"

definition hex_EncodeToString :: "byte list \<Rightarrow> string" where
  "hex_EncodeToString bs = concat (map hex_byte bs)"

definition sha256_K :: "32 word list" where
  "sha256_K =
   [0x428A2F98, 0x71374491, 0xB5C0FBCF, 0xE9B5DBA5, 0x3956C25B, 0x59F111F1, 0x923F82A4, 0xAB1C5ED5,
    0xD807AA98, 0x12835B01, 0x243185BE, 0x550C7DC3, 0x72BE5D74, 0x80DEB1FE, 0x9BDC06A7, 0xC19BF174,
    0xE49B69C1, 0xEFBE4786, 0x0FC19DC6, 0x240CA1CC, 0x2DE92C6F, 0x4A7484AA, 0x5CB0A9DC, 0x76F988DA,
    0x983E5152, 0xA831C66D, 0xB00327C8, 0xBF597FC7, 0xC6E00BF3, 0xD5A79147, 0x06CA6351, 0x14292967,
    0x27B70A85, 0x2E1B2138, 0x4D2C6DFC, 0x53380D13, 0x650A7354, 0x766A0ABB, 0x81C2C92E, 0x92722C85,
    0xA2BFE8A1, 0xA81A664B, 0xC24B8B70, 0xC76C51A3, 0xD192E819, 0xD6990624, 0xF40E3585, 0x106AA070,
    0x19A4C116, 0x1E376C08, 0x2748774C, 0x34B0BCB5, 0x391C0CB3, 0x4ED8AA4A, 0x5B9CCA4F, 0x682E6FF3,
    0x748F82EE, 0x78A5636F, 0x84C87814, 0x8CC70208, 0x90BEFFFA, 0xA4506CEB, 0xBEF9A3F7, 0xC67178F2]"

type_synonym sha256_state =
  "32 word \<times> 32 word \<times> 32 word \<times> 32 word \<times> 32 word \<times> 32 word \<times> 32 word \<times> 32 word"

definition sha256_init :: sha256_state where
  "sha256_init =
   (0x6A09E667, 0xBB67AE85, 0x3C6EF372, 0xA54FF53A, 0x510E527F, 0x9B05688C, 0x1F83D9AB, 0x5BE0CD19)"

definition sha256_pad :: "byte list \<Rightarrow> byte list" where
  "sha256_pad msg =
     (let n = length msg;
          bits = (of_nat (8 * n) :: 64 word)
      in msg @ [0x80] @ replicate ((64 - (n + 9) mod 64) mod 64) 0
             @ map (\<lambda>i. ucast (drop_bit (8 * (7 - i)) bits)) [0..<8])"

fun sha256_chunks :: "nat \<Rightarrow> byte list \<Rightarrow> byte list list" where
  "sha256_chunks 0 bs = []"
| "sha256_chunks (Suc n) bs = take 64 bs # sha256_chunks n (drop 64 bs)"

definition be_uint32 :: "byte list \<Rightarrow> 32 word" where
  "be_uint32 bs =
     push_bit 24 (ucast (bs ! 0)) OR push_bit 16 (ucast (bs ! 1))
       OR push_bit 8 (ucast (bs ! 2)) OR ucast (bs ! 3)"

definition be_bytes32 :: "32 word \<Rightarrow> byte list" where
  "be_bytes32 w = [ucast (drop_bit 24 w), ucast (drop_bit 16 w), ucast (drop_bit 8 w), ucast w]"

definition sha256_schedule :: "byte list \<Rightarrow> 32 word list" where
  "sha256_schedule blk =
     fold (\<lambda>t w.
             let v1 = w ! (t - 2); t1 = word_rotr 17 v1 XOR word_rotr 19 v1 XOR drop_bit 10 v1;
                 v2 = w ! (t - 15); t2 = word_rotr 7 v2 XOR word_rotr 18 v2 XOR drop_bit 3 v2
             in w @ [t1 + w ! (t - 7) + t2 + w ! (t - 16)])
          [16..<64]
          (map (\<lambda>i. be_uint32 (take 4 (drop (4 * i) blk))) [0..<16])"

definition sha256_round :: "32 word list \<Rightarrow> nat \<Rightarrow> sha256_state \<Rightarrow> sha256_state" where
  "sha256_round w i st =
     (case st of (a, b, c, d, e, f, g, h) \<Rightarrow>
        let t1 = h + (word_rotr 6 e XOR word_rotr 11 e XOR word_rotr 25 e)
                   + ((e AND f) XOR (NOT e AND g)) + sha256_K ! i + w ! i;
            t2 = (word_rotr 2 a XOR word_rotr 13 a XOR word_rotr 22 a)
                   + ((a AND b) XOR (a AND c) XOR (b AND c))
        in (t1 + t2, a, b, c, d + t1, e, f, g))"

definition sha256_block :: "sha256_state \<Rightarrow> byte list \<Rightarrow> sha256_state" where
  "sha256_block st blk =
     (case st of (h0, h1, h2, h3, h4, h5, h6, h7) \<Rightarrow>
        case fold (sha256_round (sha256_schedule blk)) [0..<64] st of
          (a, b, c, d, e, f, g, h) \<Rightarrow>
            (h0 + a, h1 + b, h2 + c, h3 + d, h4 + e, h5 + f, h6 + g, h7 + h))"

definition sha256_Sum :: "byte list \<Rightarrow> byte list" where
  "sha256_Sum msg =
     (let p = sha256_pad msg
      in case foldl sha256_block sha256_init (sha256_chunks (length p div 64) p) of
           (h0, h1, h2, h3, h4, h5, h6, h7) \<Rightarrow>
             be_bytes32 h0 @ be_bytes32 h1 @ be_bytes32 h2 @ be_bytes32 h3
               @ be_bytes32 h4 @ be_bytes32 h5 @ be_bytes32 h6 @ be_bytes32 h7)"

text \<open>
  \<open>GenerateSalt\<close> reads 16 bytes from \<open>crypto/rand\<close>. The outcome of that read is an
  input of the model: \<open>Some bytes\<close> when the read succeeded, \<open>None\<close> when it returned
  an error.
\<close>

datatype error =
    ErrUserNotFound
  | ErrUserAlreadyExists
  | ErrInvalidPassword
  | ErrGenerateSalt            \<comment> \<open>"failed to generate salt: ..."\<close>
  | ErrRecordNotFound          \<comment> \<open>gorm.ErrRecordNotFound\<close>
  | ErrUniqueConstraint        \<comment> \<open>storage: a unique or primary-key constraint failed\<close>
  | ErrNoSuchColumn            \<comment> \<open>storage: the statement names an unknown column\<close>
  | ErrDuplicateColumn         \<comment> \<open>storage: the statement assigns one column twice\<close>
  | ErrBadValue                \<comment> \<open>storage: a value does not fit its column\<close>
  | ErrJSONUnsupported         \<comment> \<open>json.Marshal: unsupported type or value\<close>
  | ErrJSONSyntax              \<comment> \<open>json.Unmarshal: not a JSON text\<close>
  | ErrJSONType                \<comment> \<open>json.Unmarshal: JSON value does not fit the target\<close>

definition GenerateSalt :: "byte list option \<Rightarrow> error + string" where
  "GenerateSalt rnd =
     (case rnd of
        None \<Rightarrow> Inl ErrGenerateSalt
      | Some salt \<Rightarrow> Inr (hex_EncodeToString salt))"

definition HashPassword :: "string \<Rightarrow> string \<Rightarrow> string" where
  "HashPassword password salt =
     (let combined = password @ salt
      in hex_EncodeToString (sha256_Sum (bytes_of_string combined)))"

section \<open>User record (the business model and its storage form)\<close>

text \<open>
  A \<open>uuid.UUID\<close> is kept in its canonical textual form, the form under which the
  storage compares it with the \<open>id\<close> argument of the keyed operations.
\<close>

type_synonym uuid = string

definition uuid_Nil :: uuid where
  "uuid_Nil = ''00000000-0000-0000-0000-000000000000''"

type_synonym UserStatus = string

definition UserStatusActive :: UserStatus where
  "UserStatusActive = ''active''"

definition UserStatusSuspended :: UserStatus where
  "UserStatusSuspended = ''suspended''"


definition UserStatusInactive :: UserStatus where
  "UserStatusInactive = ''inactive''"

definition DefaultUserStatus :: UserStatus where
  "DefaultUserStatus = UserStatusInactive"

text \<open>
  A value held in a \<open>map[string]interface{}\<close> extension payload. \<open>GChan\<close> stands for
  every Go value that \<open>json.Marshal\<close> refuses (a channel, a function, a NaN).
  A Go map is an association list; \<open>None\<close> is the nil map.
\<close>

datatype gvalue =
    GNil
  | GBool bool
  | GNumber int
  | GString string
  | GSlice "gvalue list"
  | GMap "(string \<times> gvalue) list"
  | GChan

type_synonym gmap = "(string \<times> gvalue) list"

text \<open>
  \<open>datatypes.JSON\<close> is a byte slice. The model keeps of it what \<open>encoding/json\<close>
  reads from it: no bytes at all, a well-formed JSON text (kept as the value it
  denotes), or a non-empty byte sequence that is not JSON.
\<close>

datatype JSON = JSONEmpty | JSONText gvalue | JSONInvalid

fun JSON_nonempty :: "JSON \<Rightarrow> bool" where
  "JSON_nonempty JSONEmpty = False"
| "JSON_nonempty (JSONText v) = True"
| "JSON_nonempty JSONInvalid = True"

fun encodable :: "gvalue \<Rightarrow> bool" where
  "encodable GChan = False"
| "encodable (GSlice vs) = (\<forall>v \<in> set vs. encodable v)"
| "encodable (GMap kvs) = (\<forall>kv \<in> set kvs. encodable (snd kv))"
| "encodable v = True"

definition json_Marshal :: "gmap option \<Rightarrow> error + JSON" where
  "json_Marshal m =
     (case m of
        None \<Rightarrow> Inr (JSONText GNil)
      | Some kvs \<Rightarrow>
          if encodable (GMap kvs) then Inr (JSONText (GMap kvs)) else Inl ErrJSONUnsupported)"

text \<open>\<open>json.Unmarshal\<close> into a pointer to an empty, non-nil map.\<close>

fun json_Unmarshal :: "JSON \<Rightarrow> error + gmap option" where
  "json_Unmarshal JSONEmpty = Inl ErrJSONSyntax"
| "json_Unmarshal JSONInvalid = Inl ErrJSONSyntax"
| "json_Unmarshal (JSONText GNil) = Inr None"
| "json_Unmarshal (JSONText (GMap kvs)) = Inr (Some kvs)"
| "json_Unmarshal (JSONText v) = Inl ErrJSONType"

text \<open>
  \<open>User\<close> and \<open>GormUserModel\<close> have the same fields but for the type of \<open>Data\<close>.
  \<open>CreatedAt\<close> is a time stamp, \<open>0\<close> the zero time.
\<close>

record 'd UserFields =
  ID :: uuid
  Name :: string
  Username :: string
  Email :: string
  Password :: string
  Salt :: string
  Phone :: string
  CreatedAt :: nat
  Enabled :: bool
  Status :: UserStatus
  Data :: 'd

type_synonym User = "gmap option UserFields"

type_synonym GormUserModel = "JSON UserFields"

definition ToUser :: "GormUserModel \<Rightarrow> User" where
  "ToUser g =
     (let data = Some [];
          data = (if JSON_nonempty (Data g)
                  then (case json_Unmarshal (Data g) of
                          Inl err \<Rightarrow> Some []
                        | Inr d \<Rightarrow> d)
                  else data)
      in \<lparr>ID = ID g, Name = Name g, Username = Username g, Email = Email g,
          Password = Password g, Salt = Salt g, Phone = Phone g, CreatedAt = CreatedAt g,
          Enabled = Enabled g, Status = Status g, Data = data\<rparr>)"

definition NewGormUserModelFromUser :: "User \<Rightarrow> GormUserModel" where
  "NewGormUserModelFromUser user =
     (let jsonData = (if Data user \<noteq> None
                      then (case json_Marshal (Data user) of
                              Inr data \<Rightarrow> data
                            | Inl err \<Rightarrow> JSONText (GMap []))
                      else JSONText (GMap []))
      in \<lparr>ID = ID user, Name = Name user, Username = Username user, Email = Email user,
          Password = Password user, Salt = Salt user, Phone = Phone user,
          CreatedAt = CreatedAt user, Enabled = Enabled user, Status = Status user,
          Data = jsonData\<rparr>)"

section \<open>Storage\<close>

text \<open>
  The relational engine and gorm are collaborators outside the repository (spec, sections
  1 and 4.3: find one, insert with conflict, apply a change-set and count the affected
  rows, delete, set a column). The model keeps what the program relies on: one table, held
  as the list of its rows in insertion order, under the constraints that the struct tags of
  \<open>GormUserModel\<close> declare (\<open>id\<close> is the primary key; \<open>username\<close>, \<open>email\<close> and
  \<open>phone\<close> are unique; \<open>enabled\<close>, \<open>status\<close> and \<open>data\<close> have the defaults
  \<open>true\<close>, \<open>'inactive'\<close> and \<open>'{}'\<close>; \<open>created_at\<close> is filled on insertion). The
  engine never fails for reasons of its own (no I/O errors): its only errors are rejected
  statements and violated constraints.
\<close>

type_synonym table = "GormUserModel list"

text \<open>The conditions of the \<open>Where\<close> clauses the program issues.\<close>

datatype cond =
    IdEq string                    \<comment> \<open>\<open>id = ?\<close>\<close>
  | UsernameEq string              \<comment> \<open>\<open>username = ?\<close>\<close>
  | EmailEq string                 \<comment> \<open>\<open>email = ?\<close>\<close>
  | UsernameOrEmail string string  \<comment> \<open>\<open>username = ? OR email = ?\<close>\<close>

fun holds :: "cond \<Rightarrow> GormUserModel \<Rightarrow> bool" where
  "holds (IdEq v) r = (ID r = v)"
| "holds (UsernameEq v) r = (Username r = v)"
| "holds (EmailEq v) r = (Email r = v)"
| "holds (UsernameOrEmail u e) r = (Username r = u \<or> Email r = e)"

text \<open>What a finished gorm call reports.\<close>

record gorm_DB =
  Error :: "error option"
  RowsAffected :: nat

definition gorm_ok :: "nat \<Rightarrow> gorm_DB" where
  "gorm_ok n = \<lparr>Error = None, RowsAffected = n\<rparr>"

definition gorm_failed :: "error \<Rightarrow> gorm_DB" where
  "gorm_failed e = \<lparr>Error = Some e, RowsAffected = 0\<rparr>"

definition gorm_First :: "cond \<Rightarrow> table \<Rightarrow> error + GormUserModel" where
  "gorm_First c tbl =
     (case filter (holds c) tbl of
        [] \<Rightarrow> Inl ErrRecordNotFound
      | r # rs \<Rightarrow> Inr r)"

text \<open>\<open>Select("password", "salt")\<close>: only these two fields of the destination are filled.\<close>

definition gorm_Select_password_salt :: "GormUserModel \<Rightarrow> GormUserModel" where
  "gorm_Select_password_salt r =
     \<lparr>ID = uuid_Nil, Name = [], Username = [], Email = [], Password = Password r,
      Salt = Salt r, Phone = [], CreatedAt = 0, Enabled = False, Status = [],
      Data = JSONEmpty\<rparr>"

definition gorm_Count :: "cond \<Rightarrow> table \<Rightarrow> nat" where
  "gorm_Count c tbl = length (filter (holds c) tbl)"

text \<open>
  \<open>Create\<close>: a zero-valued field with a default takes the default, \<open>created_at\<close> is set
  when it is the zero time, and the row is inserted unless it repeats the primary key or
  a unique column of a stored row.
\<close>

definition gorm_Create :: "GormUserModel \<Rightarrow> nat \<Rightarrow> table \<Rightarrow> gorm_DB \<times> table" where
  "gorm_Create g now tbl =
     (let row = g\<lparr>CreatedAt := (if CreatedAt g = 0 then now else CreatedAt g),
                  Enabled := (if Enabled g then Enabled g else True),
                  Status := (if Status g = [] then ''inactive'' else Status g),
                  Data := (if Data g = JSONEmpty then JSONText (GMap []) else Data g)\<rparr>
      in if \<exists>r \<in> set tbl. ID r = ID row \<or> Username r = Username row
                              \<or> Email r = Email row \<or> Phone r = Phone row
         then (gorm_failed ErrUniqueConstraint, tbl)
         else (gorm_ok 1, tbl @ [row]))"


text \<open>
  A value of type \<open>interface{}\<close> found in a change-set: a string (a \<open>UserStatus\<close>
  included), a boolean, an integer, a time, a \<open>map[string]interface{}\<close> (possibly nil),
  a \<open>datatypes.JSON\<close>, or anything else.
\<close>

datatype iface =
    IString string
  | IBool bool
  | IInt int
  | ITime nat
  | IMap "gmap option"
  | IJSON JSON
  | IOther

type_synonym changeset = "(string, iface) fmap"

datatype column =
    ColID | ColName | ColUsername | ColEmail | ColPassword | ColSalt | ColPhone
  | ColCreatedAt | ColEnabled | ColStatus | ColData

definition all_columns :: "column list" where
  "all_columns = [ColID, ColName, ColUsername, ColEmail, ColPassword, ColSalt, ColPhone,
                  ColCreatedAt, ColEnabled, ColStatus, ColData]"

text \<open>
  The program names columns both in lower case (\<open>"enabled"\<close>, \<open>"status"\<close>) and by the
  capitalised field name (\<open>"Password"\<close>, \<open>"Salt"\<close>, \<open>"Data"\<close>); the engine knows a
  column under these two spellings.
\<close>

fun column_names :: "column \<Rightarrow> string list" where
  "column_names ColID = [''ID'', ''id'']"
| "column_names ColName = [''Name'', ''name'']"
| "column_names ColUsername = [''Username'', ''username'']"
| "column_names ColEmail = [''Email'', ''email'']"
| "column_names ColPassword = [''Password'', ''password'']"
| "column_names ColSalt = [''Salt'', ''salt'']"
| "column_names ColPhone = [''Phone'', ''phone'']"
| "column_names ColCreatedAt = [''created_at'']"
| "column_names ColEnabled = [''Enabled'', ''enabled'']"
| "column_names ColStatus = [''Status'', ''status'']"
| "column_names ColData = [''Data'', ''data'']"

definition known_names :: "string list" where
  "known_names = concat (map column_names all_columns)"

definition assigned :: "changeset \<Rightarrow> column \<Rightarrow> iface list" where
  "assigned cs c = List.map_filter (fmlookup cs) (column_names c)"

definition fits :: "column \<Rightarrow> iface \<Rightarrow> bool" where
  "fits c v =
     (case c of
        ColCreatedAt \<Rightarrow> (case v of ITime t \<Rightarrow> True | _ \<Rightarrow> False)
      | ColEnabled \<Rightarrow> (case v of IBool b \<Rightarrow> True | _ \<Rightarrow> False)
      | ColData \<Rightarrow> (case v of IJSON j \<Rightarrow> True | _ \<Rightarrow> False)
      | _ \<Rightarrow> (case v of IString s \<Rightarrow> True | _ \<Rightarrow> False))"

definition set_column :: "column \<Rightarrow> iface \<Rightarrow> GormUserModel \<Rightarrow> GormUserModel" where
  "set_column c v r =
     (case c of
        ColID \<Rightarrow> (case v of IString s \<Rightarrow> r\<lparr>ID := s\<rparr> | _ \<Rightarrow> r)
      | ColName \<Rightarrow> (case v of IString s \<Rightarrow> r\<lparr>Name := s\<rparr> | _ \<Rightarrow> r)
      | ColUsername \<Rightarrow> (case v of IString s \<Rightarrow> r\<lparr>Username := s\<rparr> | _ \<Rightarrow> r)
      | ColEmail \<Rightarrow> (case v of IString s \<Rightarrow> r\<lparr>Email := s\<rparr> | _ \<Rightarrow> r)
      | ColPassword \<Rightarrow> (case v of IString s \<Rightarrow> r\<lparr>Password := s\<rparr> | _ \<Rightarrow> r)
      | ColSalt \<Rightarrow> (case v of IString s \<Rightarrow> r\<lparr>Salt := s\<rparr> | _ \<Rightarrow> r)
      | ColPhone \<Rightarrow> (case v of IString s \<Rightarrow> r\<lparr>Phone := s\<rparr> | _ \<Rightarrow> r)
      | ColCreatedAt \<Rightarrow> (case v of ITime t \<Rightarrow> r\<lparr>CreatedAt := t\<rparr> | _ \<Rightarrow> r)
      | ColEnabled \<Rightarrow> (case v of IBool b \<Rightarrow> r\<lparr>Enabled := b\<rparr> | _ \<Rightarrow> r)
      | ColStatus \<Rightarrow> (case v of IString s \<Rightarrow> r\<lparr>Status := s\<rparr> | _ \<Rightarrow> r)
      | ColData \<Rightarrow> (case v of IJSON j \<Rightarrow> r\<lparr>Data := j\<rparr> | _ \<Rightarrow> r))"

definition assign_column :: "changeset \<Rightarrow> column \<Rightarrow> GormUserModel \<Rightarrow> GormUserModel" where
  "assign_column cs c r = (case assigned cs c of [v] \<Rightarrow> set_column c v r | _ \<Rightarrow> r)"

definition assign_all :: "changeset \<Rightarrow> GormUserModel \<Rightarrow> GormUserModel" where
  "assign_all cs r = fold (assign_column cs) all_columns r"

definition statement_error :: "changeset \<Rightarrow> error option" where
  "statement_error cs =
     (if \<not> fBall (fmdom cs) (\<lambda>k. k \<in> set known_names) then Some ErrNoSuchColumn
      else if \<exists>c \<in> set all_columns. 1 < length (assigned cs c) then Some ErrDuplicateColumn
      else if \<exists>c \<in> set all_columns. \<exists>v \<in> set (assigned cs c). \<not> fits c v
        then Some ErrBadValue
      else None)"

definition unique_ok :: "table \<Rightarrow> bool" where
  "unique_ok tbl \<longleftrightarrow>
     distinct (map ID tbl) \<and> distinct (map Username tbl)
       \<and> distinct (map Email tbl) \<and> distinct (map Phone tbl)"

text \<open>
  \<open>Updates\<close> with a map: gorm issues no statement for an empty map; the engine rejects a
  statement that names an unknown column, assigns a column twice or carries a value that
  does not fit; a statement that matches no row changes nothing; otherwise every matching
  row is assigned, unless the result would break a uniqueness constraint.
  \<open>RowsAffected\<close> counts the matching rows.
\<close>

definition gorm_Updates :: "cond \<Rightarrow> changeset \<Rightarrow> table \<Rightarrow> gorm_DB \<times> table" where
  "gorm_Updates c cs tbl =
     (if fmdom cs = {||} then (gorm_ok 0, tbl)
      else case statement_error cs of
        Some e \<Rightarrow> (gorm_failed e, tbl)
      | None \<Rightarrow>
          if filter (holds c) tbl = [] then (gorm_ok 0, tbl)
          else let tbl' = map (\<lambda>r. if holds c r then assign_all cs r else r) tbl
               in if \<not> unique_ok tbl' then (gorm_failed ErrUniqueConstraint, tbl)
                  else (gorm_ok (length (filter (holds c) tbl)), tbl'))"


section \<open>Manager (user_manager_gorm.go)\<close>

text \<open>
  Every operation takes the table and returns the error (\<open>None\<close> for Go's \<open>nil\<close>)
  together with what it may have changed: the table, and the argument it mutates in place
  (the \<open>*User\<close> of \<open>CreateUser\<close>, the map of the update operations). The operations
  by id, by username and by email have the same body but for the \<open>Where\<close> clause; the
  shared body is written once, over the condition.
\<close>

text \<open>The comparison of the password verification (spec: \<open>Matches\<close>).\<close>

definition Matches :: "string \<Rightarrow> string \<Rightarrow> string \<Rightarrow> bool" where
  "Matches plaintext salt storedDigest \<longleftrightarrow> storedDigest = HashPassword plaintext salt"

definition verifyPasswordWhere :: "cond \<Rightarrow> string \<Rightarrow> table \<Rightarrow> error option" where
  "verifyPasswordWhere c password tbl =
     (case gorm_First c tbl of
        Inl err \<Rightarrow> if err = ErrRecordNotFound then Some ErrUserNotFound else Some err
      | Inr r \<Rightarrow>
          let gormUser = gorm_Select_password_salt r
          in if \<not> Matches password (Salt gormUser) (Password gormUser)
             then Some ErrInvalidPassword
             else None)"

definition VerifyPasswordByUsername :: "string \<Rightarrow> string \<Rightarrow> table \<Rightarrow> error option" where
  "VerifyPasswordByUsername username password tbl =
     verifyPasswordWhere (UsernameEq username) password tbl"

definition VerifyPasswordByEmail :: "string \<Rightarrow> string \<Rightarrow> table \<Rightarrow> error option" where
  "VerifyPasswordByEmail email password tbl =
     verifyPasswordWhere (EmailEq email) password tbl"

definition VerifyPasswordByID :: "string \<Rightarrow> string \<Rightarrow> table \<Rightarrow> error option" where
  "VerifyPasswordByID ident password tbl =
     verifyPasswordWhere (IdEq ident) password tbl"

text \<open>
  \<open>CreateUser\<close>. \<open>new_uuid\<close> is what \<open>uuid.New()\<close> returns, \<open>rnd\<close> the outcome of the
  random read of \<open>GenerateSalt\<close>, \<open>now\<close> the time of the insertion.
\<close>

definition CreateUser ::
  "uuid \<Rightarrow> byte list option \<Rightarrow> nat \<Rightarrow> User \<Rightarrow> table \<Rightarrow> error option \<times> User \<times> table" where
  "CreateUser new_uuid rnd now user0 tbl =
     (let user = (if ID user0 = uuid_Nil then user0\<lparr>ID := new_uuid\<rparr> else user0);
          user = (if Status user = [] then user\<lparr>Status := DefaultUserStatus\<rparr> else user);
          gormUser = NewGormUserModelFromUser user;
          count = gorm_Count (UsernameOrEmail (Username user) (Email user)) tbl
      in if count > 0 then (Some ErrUserAlreadyExists, user, tbl)
         else
           case (if Salt user = []
                 then (case GenerateSalt rnd of
                         Inl err \<Rightarrow> Inl err
                       | Inr salt \<Rightarrow> Inr (user\<lparr>Salt := salt\<rparr>, gormUser\<lparr>Salt := salt\<rparr>))
                 else Inr (user, gormUser)) of
             Inl err \<Rightarrow> (Some err, user, tbl)
           | Inr (user, gormUser) \<Rightarrow>
               let (user, gormUser) =
                     (if Password user \<noteq> [] \<and> length (Password user) < 64
                      then (let hashedPassword = HashPassword (Password user) (Salt user)
                            in (user\<lparr>Password := hashedPassword\<rparr>,
                                gormUser\<lparr>Password := hashedPassword\<rparr>))
                      else (user, gormUser));
                   (result, tbl') = gorm_Create gormUser now tbl
               in case Error result of
                    Some err \<Rightarrow> (Some err, user, tbl')
                  | None \<Rightarrow> (None, user, tbl'))"

definition getUserWhere :: "cond \<Rightarrow> table \<Rightarrow> error + User" where
  "getUserWhere c tbl =
     (case gorm_First c tbl of
        Inl err \<Rightarrow> if err = ErrRecordNotFound then Inl ErrUserNotFound else Inl err
      | Inr gormUser \<Rightarrow> Inr (ToUser gormUser))"

definition GetUserByID :: "string \<Rightarrow> table \<Rightarrow> error + User" where
  "GetUserByID ident tbl = getUserWhere (IdEq ident) tbl"

definition GetUserByUsername :: "string \<Rightarrow> table \<Rightarrow> error + User" where
  "GetUserByUsername username tbl = getUserWhere (UsernameEq username) tbl"

definition GetUserByEmail :: "string \<Rightarrow> table \<Rightarrow> error + User" where
  "GetUserByEmail email tbl = getUserWhere (EmailEq email) tbl"

text \<open>The two preparation steps of an update, in the order of the source.\<close>

definition hashPasswordEntry :: "byte list option \<Rightarrow> changeset \<Rightarrow> error + changeset" where
  "hashPasswordEntry rnd updatedData =
     (case fmlookup updatedData ''Password'' of
        Some (IString password) \<Rightarrow>
          if length password < 64
          then (case GenerateSalt rnd of
                  Inl err \<Rightarrow> Inl err
                | Inr newSalt \<Rightarrow>
                    Inr (fmupd ''Salt'' (IString newSalt)
                          (fmupd ''Password'' (IString (HashPassword password newSalt))
                             updatedData)))
          else Inr updatedData
      | _ \<Rightarrow> Inr updatedData)"

definition encodeDataEntry :: "changeset \<Rightarrow> changeset" where
  "encodeDataEntry updatedData =
     (case fmlookup updatedData ''Data'' of
        Some (IMap dataMap) \<Rightarrow>
          (case json_Marshal dataMap of
             Inr jsonData \<Rightarrow> fmupd ''Data'' (IJSON jsonData) updatedData
           | Inl err \<Rightarrow> fmdrop ''Data'' updatedData)
      | _ \<Rightarrow> updatedData)"

text \<open>What the program makes of a finished write (\<open>result.Error\<close>, \<open>result.RowsAffected\<close>).\<close>

definition outcome :: "gorm_DB \<Rightarrow> error option" where
  "outcome result =
     (if Error result \<noteq> None then Error result
      else if RowsAffected result = 0 then Some ErrUserNotFound
      else None)"

definition updateUserWhere ::
  "cond \<Rightarrow> byte list option \<Rightarrow> changeset \<Rightarrow> table \<Rightarrow> error option \<times> changeset \<times> table" where
  "updateUserWhere c rnd updatedData tbl =
     (case hashPasswordEntry rnd updatedData of
        Inl err \<Rightarrow> (Some err, updatedData, tbl)
      | Inr updatedData \<Rightarrow>
          let updatedData = encodeDataEntry updatedData;
              (result, tbl') = gorm_Updates c updatedData tbl
          in (outcome result, updatedData, tbl'))"

definition UpdateUserByID ::
  "byte list option \<Rightarrow> string \<Rightarrow> changeset \<Rightarrow> table \<Rightarrow> error option \<times> changeset \<times> table" where
  "UpdateUserByID rnd ident updatedData tbl = updateUserWhere (IdEq ident) rnd updatedData tbl"

definition UpdateUserByUsername ::
  "byte list option \<Rightarrow> string \<Rightarrow> changeset \<Rightarrow> table \<Rightarrow> error option \<times> changeset \<times> table" where
  "UpdateUserByUsername rnd username updatedData tbl =
     updateUserWhere (UsernameEq username) rnd updatedData tbl"

definition UpdateUserByEmail ::
  "byte list option \<Rightarrow> string \<Rightarrow> changeset \<Rightarrow> table \<Rightarrow> error option \<times> changeset \<times> table" where
  "UpdateUserByEmail rnd email updatedData tbl =
     updateUserWhere (EmailEq email) rnd updatedData tbl"











section \<open>Closed forms\<close>

text \<open>
  What a successful \<open>CreateUser\<close> leaves in its argument and in the table, written
  out; the lemmas \<open>NewGormUserModelFromUser_closed_form\<close> and
  \<open>CreateUser_closed_form\<close> below show that the program computes exactly these.
\<close>

definition stored_payload :: "gmap option \<Rightarrow> JSON" where
  "stored_payload d =
     (case d of
        None \<Rightarrow> JSONText (GMap [])
      | Some kvs \<Rightarrow> if encodable (GMap kvs) then JSONText (GMap kvs) else JSONText (GMap []))"

definition created_user :: "uuid \<Rightarrow> byte list option \<Rightarrow> User \<Rightarrow> User" where
  "created_user new_uuid rnd user =
     (let salt = (if Salt user = [] then (case rnd of Some bytes \<Rightarrow> hex_EncodeToString bytes | None \<Rightarrow> [])
                  else Salt user)
      in user\<lparr>ID := (if ID user = uuid_Nil then new_uuid else ID user),
              Status := (if Status user = [] then DefaultUserStatus else Status user),
              Salt := salt,
              Password := (if Password user \<noteq> [] \<and> length (Password user) < 64
                           then HashPassword (Password user) salt else Password user)\<rparr>)"

definition created_row :: "nat \<Rightarrow> User \<Rightarrow> GormUserModel" where
  "created_row now u =
     \<lparr>ID = ID u, Name = Name u, Username = Username u, Email = Email u,
      Password = Password u, Salt = Salt u, Phone = Phone u,
      CreatedAt = (if CreatedAt u = 0 then now else CreatedAt u),
      Enabled = True, Status = Status u, Data = stored_payload (Data u)\<rparr>"

section \<open>Sample data\<close>

definition alice_row :: GormUserModel where
  "alice_row =
     \<lparr>ID = ''11111111-1111-4111-8111-111111111111'', Name = ''Alice'', Username = ''alice'',
      Email = ''a@x.com'', Password = HashPassword ''p1'' ''5a17'', Salt = ''5a17'',
      Phone = ''111'', CreatedAt = 1, Enabled = True, Status = ''active'',
      Data = JSONText (GMap [])\<rparr>"

definition alice :: User where
  "alice =
     \<lparr>ID = uuid_Nil, Name = ''Alice'', Username = ''alice'', Email = ''a@x.com'',
      Password = ''p1'', Salt = [], Phone = ''111'', CreatedAt = 0, Enabled = True,
      Status = [], Data = None\<rparr>"

definition bob :: User where
  "bob =
     \<lparr>ID = ''22222222-2222-4222-8222-222222222222'', Name = ''Bob'', Username = ''bob'', Email = ''b@x.com'',
      Password = ''p2'', Salt = [], Phone = ''111'', CreatedAt = 0, Enabled = True,
      Status = UserStatusActive, Data = Some []\<rparr>"

section \<open>Properties of the credential codec\<close>












section \<open>Credential round trip\<close>



section \<open>Keys that match no record\<close>

lemma filter_holds_empty: "(\<forall>r \<in> set tbl. \<not> holds c r) \<Longrightarrow> filter (holds c) tbl = []"
  by (simp add: filter_empty_conv)

















section \<open>Creation\<close>

lemma gorm_Count_pos: "0 < gorm_Count c tbl \<longleftrightarrow> (\<exists>r \<in> set tbl. holds c r)"
  by (simp add: gorm_Count_def filter_empty_conv)

lemma NewGormUserModelFromUser_closed_form:
  "NewGormUserModelFromUser user =
     \<lparr>ID = ID user, Name = Name user, Username = Username user, Email = Email user,
      Password = Password user, Salt = Salt user, Phone = Phone user,
      CreatedAt = CreatedAt user, Enabled = Enabled user, Status = Status user,
      Data = stored_payload (Data user)\<rparr>"
  by (cases "Data user")
     (simp_all add: NewGormUserModelFromUser_def stored_payload_def json_Marshal_def Let_def)

lemma stored_payload_nonempty: "stored_payload d \<noteq> JSONEmpty"
  by (simp add: stored_payload_def split: option.splits)

lemma CreateUser_closed_form:
  "CreateUser new_uuid rnd now user tbl =
     (let u2 = user\<lparr>ID := (if ID user = uuid_Nil then new_uuid else ID user),
                    Status := (if Status user = [] then DefaultUserStatus else Status user)\<rparr>;
          u4 = created_user new_uuid rnd user
      in if \<exists>r \<in> set tbl. Username r = Username user \<or> Email r = Email user
         then (Some ErrUserAlreadyExists, u2, tbl)
         else if Salt user = [] \<and> rnd = None then (Some ErrGenerateSalt, u2, tbl)
         else if \<exists>r \<in> set tbl. ID r = ID u4 \<or> Username r = Username user
                     \<or> Email r = Email user \<or> Phone r = Phone user
           then (Some ErrUniqueConstraint, u4, tbl)
           else (None, u4, tbl @ [created_row now u4]))"
proof -
  have st: "DefaultUserStatus \<noteq> []"
    by (simp add: DefaultUserStatus_def UserStatusInactive_def)
  show ?thesis
    by (cases "ID user = uuid_Nil"; cases "Status user = []"; cases "Salt user = []"; cases rnd;
        cases "Password user = []"; cases "length (Password user) < 64")
       (simp_all add: CreateUser_def Let_def gorm_Count_pos gorm_Create_def gorm_ok_def
          gorm_failed_def NewGormUserModelFromUser_closed_form created_user_def created_row_def
          GenerateSalt_def st stored_payload_nonempty)
qed


lemma CreateUser_success:
  assumes ok: "CreateUser new_uuid rnd now user tbl = (None, user', tbl')"
  shows "user' = created_user new_uuid rnd user"
    and "tbl' = tbl @ [created_row now user']"
    and "\<forall>r \<in> set tbl. ID r \<noteq> ID user' \<and> Username r \<noteq> Username user
           \<and> Email r \<noteq> Email user \<and> Phone r \<noteq> Phone user"
    and "Salt user = [] \<longrightarrow> GenerateSalt rnd = Inr (Salt user')"
  using ok unfolding CreateUser_closed_form Let_def
  by (auto simp: created_user_def GenerateSalt_def Let_def split: if_splits option.splits)

lemma CreateUser_failure_keeps_table:
  "fst (CreateUser new_uuid rnd now user tbl) \<noteq> None \<Longrightarrow>
   snd (snd (CreateUser new_uuid rnd now user tbl)) = tbl"
  unfolding CreateUser_closed_form Let_def by (auto split: if_splits)

lemma CreateUser_conflict:
  "r \<in> set tbl \<Longrightarrow> Username r = Username user \<or> Email r = Email user \<Longrightarrow>
   fst (CreateUser new_uuid rnd now user tbl) = Some ErrUserAlreadyExists"
  unfolding CreateUser_closed_form Let_def by auto

lemma CreateUser_phone:
  "r \<in> set tbl \<Longrightarrow> Phone r = Phone user \<Longrightarrow>
   fst (CreateUser new_uuid rnd now user tbl) \<noteq> None"
  unfolding CreateUser_closed_form Let_def by auto

lemma CreateUser_phone_only:
  "r \<in> set tbl \<Longrightarrow> Phone r = Phone user \<Longrightarrow>
   \<forall>r' \<in> set tbl. Username r' \<noteq> Username user \<and> Email r' \<noteq> Email user \<Longrightarrow>
   fst (CreateUser new_uuid rnd now user tbl) = Some ErrUniqueConstraint
   \<or> fst (CreateUser new_uuid rnd now user tbl) = Some ErrGenerateSalt"
  unfolding CreateUser_closed_form Let_def by auto

lemma created_user_keeps:
  "Name (created_user i rnd u) = Name u" "Username (created_user i rnd u) = Username u"
  "Email (created_user i rnd u) = Email u" "Phone (created_user i rnd u) = Phone u"
  "Enabled (created_user i rnd u) = Enabled u" "Data (created_user i rnd u) = Data u"
  "CreatedAt (created_user i rnd u) = CreatedAt u"
  "ID (created_user i rnd u) = (if ID u = uuid_Nil then i else ID u)"
  "Status (created_user i rnd u) = (if Status u = [] then DefaultUserStatus else Status u)"
  by (simp_all add: created_user_def Let_def)

lemma created_row_fields:
  "ID (created_row now u) = ID u" "Username (created_row now u) = Username u"
  "Email (created_row now u) = Email u" "Phone (created_row now u) = Phone u"
  "Status (created_row now u) = Status u" "Password (created_row now u) = Password u"
  "Salt (created_row now u) = Salt u" "Name (created_row now u) = Name u"
  "Data (created_row now u) = stored_payload (Data u)" "Enabled (created_row now u) = True"
  by (simp_all add: created_row_def)

lemma CreateUser_alice:
  "CreateUser new_uuid (Some bytes) now alice [] =
     (None, created_user new_uuid (Some bytes) alice,
      [created_row now (created_user new_uuid (Some bytes) alice)])"
  unfolding CreateUser_closed_form Let_def by (simp add: alice_def)

text \<open>
  Claim C1, as stated, fails for the phone number: the check that answers
  \<open>ErrUserAlreadyExists\<close> looks at the username and the email only. A second user with a
  new username and a new email but the phone number of the first is refused by the unique
  constraint of the table, and that error is returned as it is.
\<close>

theorem CreateUser_phone_collision_counterexample:
  "fst (CreateUser ''11111111-1111-4111-8111-111111111111'' (Some (replicate 16 7)) 1 alice [])
     = None
   \<and> Phone bob = Phone alice
   \<and> fst (CreateUser ''33333333-3333-4333-8333-333333333333'' (Some (replicate 16 9)) 2 bob
          (snd (snd (CreateUser ''11111111-1111-4111-8111-111111111111''
                       (Some (replicate 16 7)) 1 alice []))))
     = Some ErrUniqueConstraint"
  unfolding CreateUser_alice
  unfolding CreateUser_closed_form Let_def
  by (simp add: alice_def bob_def created_row_fields created_user_keeps)

text \<open>
  Claim C1, amended: a create that collides with a stored record on username or email
  returns \<open>ErrUserAlreadyExists\<close>; one that collides on the phone number fails too, and
  when it collides on the phone number only, the error is the unique-constraint error of
  the storage (or the error of the salt generation), not \<open>ErrUserAlreadyExists\<close>. A
  failed create inserts nothing. Hence of two creates, one after the other, that overlap
  on username, email or phone, the second fails when the first has succeeded.
\<close>

theorem CreateUser_uniqueness:
  "(r \<in> set tbl \<and> (Username r = Username user \<or> Email r = Email user)
      \<longrightarrow> fst (CreateUser new_uuid rnd now user tbl) = Some ErrUserAlreadyExists
          \<and> snd (snd (CreateUser new_uuid rnd now user tbl)) = tbl)
   \<and> (r \<in> set tbl \<and> Phone r = Phone user
      \<longrightarrow> fst (CreateUser new_uuid rnd now user tbl) \<noteq> None
          \<and> snd (snd (CreateUser new_uuid rnd now user tbl)) = tbl)
   \<and> (r \<in> set tbl \<and> Phone r = Phone user
        \<and> (\<forall>r' \<in> set tbl. Username r' \<noteq> Username user \<and> Email r' \<noteq> Email user)
      \<longrightarrow> fst (CreateUser new_uuid rnd now user tbl) = Some ErrUniqueConstraint
          \<or> fst (CreateUser new_uuid rnd now user tbl) = Some ErrGenerateSalt)
   \<and> (CreateUser uuid1 rnd1 now1 user1 tbl0 = (None, user1', tbl)
        \<and> (Username user = Username user1 \<or> Email user = Email user1)
      \<longrightarrow> fst (CreateUser new_uuid rnd now user tbl) = Some ErrUserAlreadyExists
          \<and> snd (snd (CreateUser new_uuid rnd now user tbl)) = tbl)
   \<and> (CreateUser uuid1 rnd1 now1 user1 tbl0 = (None, user1', tbl)
        \<and> Phone user = Phone user1
      \<longrightarrow> fst (CreateUser new_uuid rnd now user tbl) \<noteq> None
          \<and> snd (snd (CreateUser new_uuid rnd now user tbl)) = tbl)"
proof (intro conjI impI; elim conjE)
  assume r: "r \<in> set tbl" and k: "Username r = Username user \<or> Email r = Email user"
  have "fst (CreateUser new_uuid rnd now user tbl) = Some ErrUserAlreadyExists"
    using r k by (rule CreateUser_conflict)
  then show "fst (CreateUser new_uuid rnd now user tbl) = Some ErrUserAlreadyExists"
    and "snd (snd (CreateUser new_uuid rnd now user tbl)) = tbl"
    by (simp_all add: CreateUser_failure_keeps_table)
next
  assume r: "r \<in> set tbl" and k: "Phone r = Phone user"
  have "fst (CreateUser new_uuid rnd now user tbl) \<noteq> None"
    using r k by (rule CreateUser_phone)
  then show "fst (CreateUser new_uuid rnd now user tbl) \<noteq> None"
    and "snd (snd (CreateUser new_uuid rnd now user tbl)) = tbl"
    by (simp_all add: CreateUser_failure_keeps_table)
next
  assume "r \<in> set tbl" "Phone r = Phone user"
    "\<forall>r' \<in> set tbl. Username r' \<noteq> Username user \<and> Email r' \<noteq> Email user"
  then show "fst (CreateUser new_uuid rnd now user tbl) = Some ErrUniqueConstraint
             \<or> fst (CreateUser new_uuid rnd now user tbl) = Some ErrGenerateSalt"
    by (rule CreateUser_phone_only)
next
  assume ok: "CreateUser uuid1 rnd1 now1 user1 tbl0 = (None, user1', tbl)"
    and k: "Username user = Username user1 \<or> Email user = Email user1"
  let ?row = "created_row now1 user1'"
  have m: "?row \<in> set tbl" using CreateUser_success(2) [OF ok] by simp
  have "Username ?row = Username user \<or> Email ?row = Email user"
    using k CreateUser_success(1) [OF ok] by (auto simp: created_row_fields created_user_keeps)
  with m have "fst (CreateUser new_uuid rnd now user tbl) = Some ErrUserAlreadyExists"
    by (rule CreateUser_conflict)
  then show "fst (CreateUser new_uuid rnd now user tbl) = Some ErrUserAlreadyExists"
    and "snd (snd (CreateUser new_uuid rnd now user tbl)) = tbl"
    by (simp_all add: CreateUser_failure_keeps_table)
next
  assume ok: "CreateUser uuid1 rnd1 now1 user1 tbl0 = (None, user1', tbl)"
    and k: "Phone user = Phone user1"
  let ?row = "created_row now1 user1'"
  have m: "?row \<in> set tbl" using CreateUser_success(2) [OF ok] by simp
  have "Phone ?row = Phone user"
    using k CreateUser_success(1) [OF ok] by (simp add: created_row_fields created_user_keeps)
  with m have "fst (CreateUser new_uuid rnd now user tbl) \<noteq> None"
    by (rule CreateUser_phone)
  then show "fst (CreateUser new_uuid rnd now user tbl) \<noteq> None"
    and "snd (snd (CreateUser new_uuid rnd now user tbl)) = tbl"
    by (simp_all add: CreateUser_failure_keeps_table)
qed

theorem CreateUser_uniqueness_witness:
  "CreateUser ''11111111-1111-4111-8111-111111111111'' (Some (replicate 16 7)) 1 alice [] = (None, (created_user ''11111111-1111-4111-8111-111111111111'' (Some (replicate 16 7)) alice), [created_row 1 (created_user ''11111111-1111-4111-8111-111111111111'' (Some (replicate 16 7)) alice)])
   \<and> (created_row 1 (created_user ''11111111-1111-4111-8111-111111111111'' (Some (replicate 16 7)) alice)) \<in> set [created_row 1 (created_user ''11111111-1111-4111-8111-111111111111'' (Some (replicate 16 7)) alice)]
   \<and> (Username (created_row 1 (created_user ''11111111-1111-4111-8111-111111111111'' (Some (replicate 16 7)) alice)) = Username alice \<or> Email (created_row 1 (created_user ''11111111-1111-4111-8111-111111111111'' (Some (replicate 16 7)) alice)) = Email alice)
   \<and> (Username alice = Username alice \<or> Email alice = Email alice)
   \<and> fst (CreateUser ''33333333-3333-4333-8333-333333333333'' (Some (replicate 16 9)) 2 alice [created_row 1 (created_user ''11111111-1111-4111-8111-111111111111'' (Some (replicate 16 7)) alice)]) = Some ErrUserAlreadyExists
   \<and> snd (snd (CreateUser ''33333333-3333-4333-8333-333333333333'' (Some (replicate 16 9)) 2 alice [created_row 1 (created_user ''11111111-1111-4111-8111-111111111111'' (Some (replicate 16 7)) alice)])) = [created_row 1 (created_user ''11111111-1111-4111-8111-111111111111'' (Some (replicate 16 7)) alice)]
   \<and> Phone (created_row 1 (created_user ''11111111-1111-4111-8111-111111111111'' (Some (replicate 16 7)) alice)) = Phone bob
   \<and> Phone bob = Phone alice
   \<and> Username (created_row 1 (created_user ''11111111-1111-4111-8111-111111111111'' (Some (replicate 16 7)) alice)) \<noteq> Username bob
   \<and> Email (created_row 1 (created_user ''11111111-1111-4111-8111-111111111111'' (Some (replicate 16 7)) alice)) \<noteq> Email bob
   \<and> fst (CreateUser ''33333333-3333-4333-8333-333333333333'' (Some (replicate 16 9)) 2 bob [created_row 1 (created_user ''11111111-1111-4111-8111-111111111111'' (Some (replicate 16 7)) alice)]) \<noteq> None
   \<and> snd (snd (CreateUser ''33333333-3333-4333-8333-333333333333'' (Some (replicate 16 9)) 2 bob [created_row 1 (created_user ''11111111-1111-4111-8111-111111111111'' (Some (replicate 16 7)) alice)])) = [created_row 1 (created_user ''11111111-1111-4111-8111-111111111111'' (Some (replicate 16 7)) alice)]
   \<and> (fst (CreateUser ''33333333-3333-4333-8333-333333333333'' (Some (replicate 16 9)) 2 bob [created_row 1 (created_user ''11111111-1111-4111-8111-111111111111'' (Some (replicate 16 7)) alice)]) = Some ErrUniqueConstraint \<or> fst (CreateUser ''33333333-3333-4333-8333-333333333333'' (Some (replicate 16 9)) 2 bob [created_row 1 (created_user ''11111111-1111-4111-8111-111111111111'' (Some (replicate 16 7)) alice)]) = Some ErrGenerateSalt)"
proof -
  have first: "CreateUser ''11111111-1111-4111-8111-111111111111'' (Some (replicate 16 7)) 1 alice [] = (None, (created_user ''11111111-1111-4111-8111-111111111111'' (Some (replicate 16 7)) alice), [created_row 1 (created_user ''11111111-1111-4111-8111-111111111111'' (Some (replicate 16 7)) alice)])"
    by (rule CreateUser_alice)
  have mem: "(created_row 1 (created_user ''11111111-1111-4111-8111-111111111111'' (Some (replicate 16 7)) alice)) \<in> set [created_row 1 (created_user ''11111111-1111-4111-8111-111111111111'' (Some (replicate 16 7)) alice)]"
    by simp
  have ua: "Username (created_row 1 (created_user ''11111111-1111-4111-8111-111111111111'' (Some (replicate 16 7)) alice)) = Username alice \<or> Email (created_row 1 (created_user ''11111111-1111-4111-8111-111111111111'' (Some (replicate 16 7)) alice)) = Email alice"
    by (simp add: created_row_fields created_user_keeps)
  have pb: "Phone (created_row 1 (created_user ''11111111-1111-4111-8111-111111111111'' (Some (replicate 16 7)) alice)) = Phone bob"
    by (simp add: created_row_fields created_user_keeps alice_def bob_def)
  have pp: "Phone bob = Phone alice"
    by (simp add: alice_def bob_def)
  have nb: "\<forall>r' \<in> set [created_row 1 (created_user ''11111111-1111-4111-8111-111111111111'' (Some (replicate 16 7)) alice)]. Username r' \<noteq> Username bob \<and> Email r' \<noteq> Email bob"
    by (simp add: created_row_fields created_user_keeps alice_def bob_def)
  note a = CreateUser_uniqueness [where r = "(created_row 1 (created_user ''11111111-1111-4111-8111-111111111111'' (Some (replicate 16 7)) alice))" and tbl = "[created_row 1 (created_user ''11111111-1111-4111-8111-111111111111'' (Some (replicate 16 7)) alice)]" and user = alice
      and new_uuid = "''33333333-3333-4333-8333-333333333333''" and rnd = "Some (replicate 16 9)" and now = 2
      and ?uuid1.0 = "''11111111-1111-4111-8111-111111111111''" and ?rnd1.0 = "Some (replicate 16 7)" and ?now1.0 = 1 and ?user1.0 = alice
      and ?tbl0.0 = "[]" and user1' = "(created_user ''11111111-1111-4111-8111-111111111111'' (Some (replicate 16 7)) alice)"]
  note b = CreateUser_uniqueness [where r = "(created_row 1 (created_user ''11111111-1111-4111-8111-111111111111'' (Some (replicate 16 7)) alice))" and tbl = "[created_row 1 (created_user ''11111111-1111-4111-8111-111111111111'' (Some (replicate 16 7)) alice)]" and user = bob
      and new_uuid = "''33333333-3333-4333-8333-333333333333''" and rnd = "Some (replicate 16 9)" and now = 2
      and ?uuid1.0 = "''11111111-1111-4111-8111-111111111111''" and ?rnd1.0 = "Some (replicate 16 7)" and ?now1.0 = 1 and ?user1.0 = alice
      and ?tbl0.0 = "[]" and user1' = "(created_user ''11111111-1111-4111-8111-111111111111'' (Some (replicate 16 7)) alice)"]
  from a first mem ua have
    "fst (CreateUser ''33333333-3333-4333-8333-333333333333'' (Some (replicate 16 9)) 2 alice [created_row 1 (created_user ''11111111-1111-4111-8111-111111111111'' (Some (replicate 16 7)) alice)]) = Some ErrUserAlreadyExists \<and> snd (snd (CreateUser ''33333333-3333-4333-8333-333333333333'' (Some (replicate 16 9)) 2 alice [created_row 1 (created_user ''11111111-1111-4111-8111-111111111111'' (Some (replicate 16 7)) alice)])) = [created_row 1 (created_user ''11111111-1111-4111-8111-111111111111'' (Some (replicate 16 7)) alice)]"
    by blast
  moreover from b first mem pb pp nb have
    "fst (CreateUser ''33333333-3333-4333-8333-333333333333'' (Some (replicate 16 9)) 2 bob [created_row 1 (created_user ''11111111-1111-4111-8111-111111111111'' (Some (replicate 16 7)) alice)]) \<noteq> None \<and> snd (snd (CreateUser ''33333333-3333-4333-8333-333333333333'' (Some (replicate 16 9)) 2 bob [created_row 1 (created_user ''11111111-1111-4111-8111-111111111111'' (Some (replicate 16 7)) alice)])) = [created_row 1 (created_user ''11111111-1111-4111-8111-111111111111'' (Some (replicate 16 7)) alice)]
     \<and> (fst (CreateUser ''33333333-3333-4333-8333-333333333333'' (Some (replicate 16 9)) 2 bob [created_row 1 (created_user ''11111111-1111-4111-8111-111111111111'' (Some (replicate 16 7)) alice)]) = Some ErrUniqueConstraint \<or> fst (CreateUser ''33333333-3333-4333-8333-333333333333'' (Some (replicate 16 9)) 2 bob [created_row 1 (created_user ''11111111-1111-4111-8111-111111111111'' (Some (replicate 16 7)) alice)]) = Some ErrGenerateSalt)"
    by blast
  ultimately show ?thesis
    using first mem ua pb pp nb by simp
qed


section \<open>Reading records back\<close>

lemma gorm_First_appended:
  "\<forall>r \<in> set tbl. \<not> holds c r \<Longrightarrow> holds c row \<Longrightarrow> gorm_First c (tbl @ [row]) = Inr row"
  by (simp add: gorm_First_def filter_holds_empty)

lemma filter_unique:
  "distinct (map f tbl) \<Longrightarrow> r \<in> set tbl \<Longrightarrow> filter (\<lambda>x. f x = f r) tbl = [r]"
proof (induction tbl)
  case Nil
  then show ?case by simp
next
  case (Cons a tbl)
  show ?case
  proof (cases "a = r")
    case True
    have "f r \<notin> f ` set tbl" using Cons.prems(1) True by simp
    then have "\<forall>x \<in> set tbl. f x \<noteq> f r" by (metis imageI)
    then have "filter (\<lambda>x. f x = f r) tbl = []" by (simp add: filter_empty_conv)
    with True show ?thesis by simp
  next
    case False
    with Cons.prems have m: "r \<in> set tbl" and d: "distinct (map f tbl)" by simp_all
    have "f a \<notin> f ` set tbl" using Cons.prems(1) by simp
    then have "f a \<noteq> f r" using m by (metis imageI)
    with Cons.IH [OF d m] show ?thesis by simp
  qed
qed

lemma gorm_First_unique:
  assumes "unique_ok tbl" "r \<in> set tbl"
  shows "gorm_First (IdEq (ID r)) tbl = Inr r"
    and "gorm_First (UsernameEq (Username r)) tbl = Inr r"
    and "gorm_First (EmailEq (Email r)) tbl = Inr r"
proof -
  have i: "holds (IdEq (ID r)) = (\<lambda>x. ID x = ID r)"
    and u: "holds (UsernameEq (Username r)) = (\<lambda>x. Username x = Username r)"
    and e: "holds (EmailEq (Email r)) = (\<lambda>x. Email x = Email r)"
    by (simp_all add: fun_eq_iff)
  from assms show "gorm_First (IdEq (ID r)) tbl = Inr r"
    unfolding gorm_First_def i by (simp add: unique_ok_def filter_unique)
  from assms show "gorm_First (UsernameEq (Username r)) tbl = Inr r"
    unfolding gorm_First_def u by (simp add: unique_ok_def filter_unique)
  from assms show "gorm_First (EmailEq (Email r)) tbl = Inr r"
    unfolding gorm_First_def e by (simp add: unique_ok_def filter_unique)
qed

lemma ToUser_Data:
  "Data (ToUser g) =
     (if JSON_nonempty (Data g)
      then (case json_Unmarshal (Data g) of Inl err \<Rightarrow> Some [] | Inr d \<Rightarrow> d)
      else Some [])"
  by (simp add: ToUser_def Let_def)

lemma ToUser_Data_unparseable: "json_Unmarshal (Data g) = Inl e \<Longrightarrow> Data (ToUser g) = Some []"
  by (simp add: ToUser_Data)

lemma ToUser_Data_absent:
  "d = None \<or> d = Some [] \<Longrightarrow> Data g = stored_payload d \<Longrightarrow> Data (ToUser g) = Some []"
  by (auto simp: ToUser_Data stored_payload_def)

lemma getUserWhere_found:
  "gorm_First c tbl = Inr r \<Longrightarrow> getUserWhere c tbl = Inr (ToUser r)"
  by (simp add: getUserWhere_def)

lemma verifyPasswordWhere_found:
  "gorm_First c tbl = Inr r \<Longrightarrow>
   verifyPasswordWhere c password tbl =
     (if Matches password (Salt r) (Password r) then None else Some ErrInvalidPassword)"
  by (simp add: verifyPasswordWhere_def gorm_Select_password_salt_def Let_def)

text \<open>
  Claim C7: a record created without an extension payload (\<open>Data\<close> nil or empty), when
  fetched by id, by username or by email, exposes \<open>Data\<close> as the empty (non-nil) map;
  and a stored payload that cannot be decoded is exposed as the empty map as well, not as
  an error.
\<close>

theorem Data_default_is_empty_mapping:
  "(CreateUser new_uuid rnd now user tbl = (None, user', tbl')
      \<and> (Data user = None \<or> Data user = Some [])
    \<longrightarrow> (\<exists>u. GetUserByID (ID user') tbl' = Inr u \<and> Data u = Some [])
        \<and> (\<exists>u. GetUserByUsername (Username user') tbl' = Inr u \<and> Data u = Some [])
        \<and> (\<exists>u. GetUserByEmail (Email user') tbl' = Inr u \<and> Data u = Some []))
   \<and> (unique_ok tbl \<and> r \<in> set tbl \<and> json_Unmarshal (Data r) = Inl e
    \<longrightarrow> (\<exists>u. GetUserByID (ID r) tbl = Inr u \<and> Data u = Some [])
        \<and> (\<exists>u. GetUserByUsername (Username r) tbl = Inr u \<and> Data u = Some [])
        \<and> (\<exists>u. GetUserByEmail (Email r) tbl = Inr u \<and> Data u = Some []))"
proof (intro conjI impI; elim conjE)
  assume ok: "CreateUser new_uuid rnd now user tbl = (None, user', tbl')"
    and d: "Data user = None \<or> Data user = Some []"
  let ?row = "created_row now user'"
  note s = CreateUser_success [OF ok]
  have keep: "Username user' = Username user" "Email user' = Email user" "Data user' = Data user"
    unfolding s(1) by (simp_all add: created_user_keeps)
  have data: "Data (ToUser ?row) = Some []"
    using d by (rule ToUser_Data_absent) (simp add: created_row_fields keep)
  have "gorm_First (IdEq (ID user')) tbl' = Inr ?row"
    unfolding s(2) using s(3) by (intro gorm_First_appended) (simp_all add: created_row_fields)
  then show "\<exists>u. GetUserByID (ID user') tbl' = Inr u \<and> Data u = Some []"
    using data by (simp add: GetUserByID_def getUserWhere_found)
  have "gorm_First (UsernameEq (Username user')) tbl' = Inr ?row"
    unfolding s(2) using s(3) by (intro gorm_First_appended) (simp_all add: created_row_fields keep)
  then show "\<exists>u. GetUserByUsername (Username user') tbl' = Inr u \<and> Data u = Some []"
    using data by (simp add: GetUserByUsername_def getUserWhere_found)
  have "gorm_First (EmailEq (Email user')) tbl' = Inr ?row"
    unfolding s(2) using s(3) by (intro gorm_First_appended) (simp_all add: created_row_fields keep)
  then show "\<exists>u. GetUserByEmail (Email user') tbl' = Inr u \<and> Data u = Some []"
    using data by (simp add: GetUserByEmail_def getUserWhere_found)
next
  assume u: "unique_ok tbl" and r: "r \<in> set tbl" and j: "json_Unmarshal (Data r) = Inl e"
  note f = gorm_First_unique [OF u r]
  have data: "Data (ToUser r) = Some []" using j by (rule ToUser_Data_unparseable)
  show "\<exists>u. GetUserByID (ID r) tbl = Inr u \<and> Data u = Some []"
    using data by (simp add: GetUserByID_def getUserWhere_found [OF f(1)])
  show "\<exists>u. GetUserByUsername (Username r) tbl = Inr u \<and> Data u = Some []"
    using data by (simp add: GetUserByUsername_def getUserWhere_found [OF f(2)])
  show "\<exists>u. GetUserByEmail (Email r) tbl = Inr u \<and> Data u = Some []"
    using data by (simp add: GetUserByEmail_def getUserWhere_found [OF f(3)])
qed

text \<open>
  Claim C8: a successful \<open>CreateUser\<close> inserts one record; its status is \<open>inactive\<close>
  when the caller left the status empty and the caller's status otherwise; its id is the
  freshly generated one when the caller left the id nil and the caller's id otherwise, and
  no record stored before has that id. The argument carries the same status and id.
\<close>

theorem CreateUser_default_status_and_id:
  assumes ok: "CreateUser new_uuid rnd now user tbl = (None, user', tbl')"
  shows "\<exists>row. tbl' = tbl @ [row]
           \<and> Status row = (if Status user = [] then UserStatusInactive else Status user)
           \<and> ID row = (if ID user = uuid_Nil then new_uuid else ID user)
           \<and> (\<forall>r \<in> set tbl. ID r \<noteq> ID row)
           \<and> Status user' = Status row \<and> ID user' = ID row"
proof -
  note s = CreateUser_success [OF ok]
  have "Status user' = (if Status user = [] then UserStatusInactive else Status user)"
    and "ID user' = (if ID user = uuid_Nil then new_uuid else ID user)"
    unfolding s(1) by (simp_all add: created_user_keeps DefaultUserStatus_def)
  then show ?thesis
    using s(2) s(3) by (intro exI [of _ "created_row now user'"]) (simp add: created_row_fields)
qed

text \<open>
  Claim C10, as stated, fails for the status: a create with an empty status succeeds and
  leaves \<open>inactive\<close> in the status of the argument.
\<close>

theorem CreateUser_status_changed_counterexample:
  "fst (CreateUser ''11111111-1111-4111-8111-111111111111'' (Some (replicate 16 7)) 1 alice [])
     = None
   \<and> Status alice = []
   \<and> Status (fst (snd (CreateUser ''11111111-1111-4111-8111-111111111111''
                          (Some (replicate 16 7)) 1 alice []))) = ''inactive''"
  unfolding CreateUser_alice
  by (simp add: created_user_keeps alice_def DefaultUserStatus_def UserStatusInactive_def)

text \<open>
  Claim C10, amended: after a successful \<open>CreateUser\<close> the argument has the generated id
  in place of a nil id, \<open>inactive\<close> in place of an empty status, the generated salt in
  place of an empty salt, and the digest in place of a non-empty password shorter than 64
  bytes (an empty password stays empty); name, username, email, phone, enabled, data and
  created-at are as the caller passed them; and id, name, username, email, phone,
  password, salt and status of the argument are those of the inserted record.
\<close>

theorem CreateUser_argument_after_success:
  assumes ok: "CreateUser new_uuid rnd now user tbl = (None, user', tbl')"
  shows "ID user' = (if ID user = uuid_Nil then new_uuid else ID user)
       \<and> Status user' = (if Status user = [] then DefaultUserStatus else Status user)
       \<and> (if Salt user = [] then GenerateSalt rnd = Inr (Salt user') else Salt user' = Salt user)
       \<and> Password user' =
           (if Password user \<noteq> [] \<and> length (Password user) < 64
            then HashPassword (Password user) (Salt user') else Password user)
       \<and> Name user' = Name user \<and> Username user' = Username user \<and> Email user' = Email user
       \<and> Phone user' = Phone user \<and> Enabled user' = Enabled user \<and> Data user' = Data user
       \<and> CreatedAt user' = CreatedAt user
       \<and> (\<exists>row. tbl' = tbl @ [row] \<and> ID row = ID user' \<and> Name row = Name user'
             \<and> Username row = Username user' \<and> Email row = Email user'
             \<and> Phone row = Phone user' \<and> Password row = Password user'
             \<and> Salt row = Salt user' \<and> Status row = Status user')"
proof -
  note s = CreateUser_success [OF ok]
  have salt: "if Salt user = [] then GenerateSalt rnd = Inr (Salt user') else Salt user' = Salt user"
    using s(4) unfolding s(1) by (simp add: created_user_def Let_def)
  have pw: "Password user' =
           (if Password user \<noteq> [] \<and> length (Password user) < 64
            then HashPassword (Password user) (Salt user') else Password user)"
    unfolding s(1) by (simp add: created_user_def Let_def)
  have row: "\<exists>row. tbl' = tbl @ [row] \<and> ID row = ID user' \<and> Name row = Name user'
             \<and> Username row = Username user' \<and> Email row = Email user'
             \<and> Phone row = Phone user' \<and> Password row = Password user'
             \<and> Salt row = Salt user' \<and> Status row = Status user'"
    using s(2) by (intro exI [of _ "created_row now user'"]) (simp add: created_row_fields)
  show ?thesis
    using salt pw row unfolding s(1) [symmetric]
    by (simp add: s(1) created_user_keeps)
qed

section \<open>Verification and the enabled flag\<close>

text \<open>
  Claim C9, as stated, fails: the verification reads the password and the salt of the
  record and nothing else, so a disabled record whose status is active is verified with the
  right secret.
\<close>

theorem Verify_disabled_counterexample:
  "\<not> Enabled (alice_row\<lparr>Enabled := False\<rparr>)
   \<and> Status (alice_row\<lparr>Enabled := False\<rparr>) = UserStatusActive
   \<and> VerifyPasswordByID (ID alice_row) ''p1'' [alice_row\<lparr>Enabled := False\<rparr>] = None
   \<and> VerifyPasswordByUsername ''alice'' ''p1'' [alice_row\<lparr>Enabled := False\<rparr>] = None
   \<and> VerifyPasswordByEmail ''a@x.com'' ''p1'' [alice_row\<lparr>Enabled := False\<rparr>] = None"
  by (simp add: VerifyPasswordByID_def VerifyPasswordByUsername_def VerifyPasswordByEmail_def
      verifyPasswordWhere_def gorm_First_def gorm_Select_password_salt_def Matches_def
      alice_row_def UserStatusActive_def)

text \<open>
  Claim C9, amended: for a stored record whose enabled flag is false, a verify-password
  call on that record (by id, username or email) returns no error exactly when the supplied
  secret matches the stored digest, and \<open>ErrInvalidPassword\<close> otherwise; the enabled flag
  does not enter the verification.
\<close>

theorem Verify_ignores_enabled:
  assumes "unique_ok tbl" "r \<in> set tbl" "\<not> Enabled r"
  shows "VerifyPasswordByID (ID r) password tbl =
           (if Matches password (Salt r) (Password r) then None else Some ErrInvalidPassword)
       \<and> VerifyPasswordByUsername (Username r) password tbl =
           (if Matches password (Salt r) (Password r) then None else Some ErrInvalidPassword)
       \<and> VerifyPasswordByEmail (Email r) password tbl =
           (if Matches password (Salt r) (Password r) then None else Some ErrInvalidPassword)"
  unfolding VerifyPasswordByID_def VerifyPasswordByUsername_def VerifyPasswordByEmail_def
  using gorm_First_unique [OF assms(1,2)]
  by (simp add: verifyPasswordWhere_found)

section \<open>Updates\<close>

lemma hashPasswordEntry_short:
  "fmlookup cs ''Password'' = Some (IString p) \<Longrightarrow> length p < 64 \<Longrightarrow>
   GenerateSalt rnd = Inr s \<Longrightarrow>
   hashPasswordEntry rnd cs =
     Inr (fmupd ''Salt'' (IString s) (fmupd ''Password'' (IString (HashPassword p s)) cs))"
  by (simp add: hashPasswordEntry_def)

lemma hashPasswordEntry_short_failed:
  "fmlookup cs ''Password'' = Some (IString p) \<Longrightarrow> length p < 64 \<Longrightarrow>
   GenerateSalt rnd = Inl e \<Longrightarrow> hashPasswordEntry rnd cs = Inl e"
  by (simp add: hashPasswordEntry_def)

lemma hashPasswordEntry_long:
  "fmlookup cs ''Password'' = Some (IString p) \<Longrightarrow> 64 \<le> length p \<Longrightarrow>
   hashPasswordEntry rnd cs = Inr cs"
  by (simp add: hashPasswordEntry_def)


lemma encodeDataEntry_lookup:
  "k \<noteq> ''Data'' \<Longrightarrow> fmlookup (encodeDataEntry cs) k = fmlookup cs k"
  by (simp add: encodeDataEntry_def split: option.splits iface.splits sum.splits)



lemma updateUserWhere_Inr:
  "hashPasswordEntry rnd cs = Inr cs1 \<Longrightarrow>
   updateUserWhere c rnd cs tbl =
     (outcome (fst (gorm_Updates c (encodeDataEntry cs1) tbl)), encodeDataEntry cs1,
      snd (gorm_Updates c (encodeDataEntry cs1) tbl))"
  by (simp add: updateUserWhere_def Let_def split: prod.splits)

lemma updateUserWhere_Inl:
  "hashPasswordEntry rnd cs = Inl e \<Longrightarrow> updateUserWhere c rnd cs tbl = (Some e, cs, tbl)"
  by (simp add: updateUserWhere_def)

text \<open>
  Claim C2: when the change-set of an update (by id, username or email) holds under
  \<open>Password\<close> a string shorter than 64 bytes and the salt generation yields the salt
  \<open>s\<close>, the change-set handed to the storage, which is also the caller's map after the
  call, holds under \<open>Password\<close> the digest of that string with \<open>s\<close> and under
  \<open>Salt\<close> the salt \<open>s\<close>; when the string has 64 bytes or more, the change-set handed
  to the storage holds it unchanged, and the \<open>Salt\<close> entry is as the caller left it.
  When the salt generation fails, its error is returned and nothing is handed to the
  storage.
\<close>

theorem Update_normalizes_password:
  "(fmlookup cs ''Password'' = Some (IString p) \<and> length p < 64 \<and> GenerateSalt rnd = Inr s
    \<longrightarrow> (\<exists>cs'. fmlookup cs' ''Password'' = Some (IString (HashPassword p s))
           \<and> fmlookup cs' ''Salt'' = Some (IString s)
           \<and> UpdateUserByID rnd ident cs tbl =
               (outcome (fst (gorm_Updates (IdEq ident) cs' tbl)), cs',
                snd (gorm_Updates (IdEq ident) cs' tbl))
           \<and> UpdateUserByUsername rnd username cs tbl =
               (outcome (fst (gorm_Updates (UsernameEq username) cs' tbl)), cs',
                snd (gorm_Updates (UsernameEq username) cs' tbl))
           \<and> UpdateUserByEmail rnd email cs tbl =
               (outcome (fst (gorm_Updates (EmailEq email) cs' tbl)), cs',
                snd (gorm_Updates (EmailEq email) cs' tbl))))
   \<and> (fmlookup cs ''Password'' = Some (IString p) \<and> 64 \<le> length p
    \<longrightarrow> (\<exists>cs'. fmlookup cs' ''Password'' = Some (IString p)
           \<and> fmlookup cs' ''Salt'' = fmlookup cs ''Salt''
           \<and> UpdateUserByID rnd ident cs tbl =
               (outcome (fst (gorm_Updates (IdEq ident) cs' tbl)), cs',
                snd (gorm_Updates (IdEq ident) cs' tbl))
           \<and> UpdateUserByUsername rnd username cs tbl =
               (outcome (fst (gorm_Updates (UsernameEq username) cs' tbl)), cs',
                snd (gorm_Updates (UsernameEq username) cs' tbl))
           \<and> UpdateUserByEmail rnd email cs tbl =
               (outcome (fst (gorm_Updates (EmailEq email) cs' tbl)), cs',
                snd (gorm_Updates (EmailEq email) cs' tbl))))
   \<and> (fmlookup cs ''Password'' = Some (IString p) \<and> length p < 64 \<and> GenerateSalt rnd = Inl e
    \<longrightarrow> UpdateUserByID rnd ident cs tbl = (Some e, cs, tbl)
        \<and> UpdateUserByUsername rnd username cs tbl = (Some e, cs, tbl)
        \<and> UpdateUserByEmail rnd email cs tbl = (Some e, cs, tbl))"
proof (intro conjI impI; elim conjE)
  assume pw: "fmlookup cs ''Password'' = Some (IString p)" and short: "length p < 64"
    and salt: "GenerateSalt rnd = Inl e"
  note h = hashPasswordEntry_short_failed [OF pw short salt]
  show "UpdateUserByID rnd ident cs tbl = (Some e, cs, tbl)"
    and "UpdateUserByUsername rnd username cs tbl = (Some e, cs, tbl)"
    and "UpdateUserByEmail rnd email cs tbl = (Some e, cs, tbl)"
    by (simp_all add: UpdateUserByID_def UpdateUserByUsername_def UpdateUserByEmail_def
        updateUserWhere_Inl [OF h])
next
  assume pw: "fmlookup cs ''Password'' = Some (IString p)" and short: "length p < 64"
    and salt: "GenerateSalt rnd = Inr s"
  let ?cs1 = "fmupd ''Salt'' (IString s) (fmupd ''Password'' (IString (HashPassword p s)) cs)"
  note h = hashPasswordEntry_short [OF pw short salt]
  show "\<exists>cs'. fmlookup cs' ''Password'' = Some (IString (HashPassword p s))
           \<and> fmlookup cs' ''Salt'' = Some (IString s)
           \<and> UpdateUserByID rnd ident cs tbl =
               (outcome (fst (gorm_Updates (IdEq ident) cs' tbl)), cs',
                snd (gorm_Updates (IdEq ident) cs' tbl))
           \<and> UpdateUserByUsername rnd username cs tbl =
               (outcome (fst (gorm_Updates (UsernameEq username) cs' tbl)), cs',
                snd (gorm_Updates (UsernameEq username) cs' tbl))
           \<and> UpdateUserByEmail rnd email cs tbl =
               (outcome (fst (gorm_Updates (EmailEq email) cs' tbl)), cs',
                snd (gorm_Updates (EmailEq email) cs' tbl))"
    by (rule exI [of _ "encodeDataEntry ?cs1"])
       (simp add: encodeDataEntry_lookup UpdateUserByID_def UpdateUserByUsername_def
          UpdateUserByEmail_def updateUserWhere_Inr [OF h])
next
  assume pw: "fmlookup cs ''Password'' = Some (IString p)" and long: "64 \<le> length p"
  note h = hashPasswordEntry_long [OF pw long]
  show "\<exists>cs'. fmlookup cs' ''Password'' = Some (IString p)
           \<and> fmlookup cs' ''Salt'' = fmlookup cs ''Salt''
           \<and> UpdateUserByID rnd ident cs tbl =
               (outcome (fst (gorm_Updates (IdEq ident) cs' tbl)), cs',
                snd (gorm_Updates (IdEq ident) cs' tbl))
           \<and> UpdateUserByUsername rnd username cs tbl =
               (outcome (fst (gorm_Updates (UsernameEq username) cs' tbl)), cs',
                snd (gorm_Updates (UsernameEq username) cs' tbl))
           \<and> UpdateUserByEmail rnd email cs tbl =
               (outcome (fst (gorm_Updates (EmailEq email) cs' tbl)), cs',
                snd (gorm_Updates (EmailEq email) cs' tbl))"
    by (rule exI [of _ "encodeDataEntry cs"])
       (simp add: encodeDataEntry_lookup pw UpdateUserByID_def UpdateUserByUsername_def
          UpdateUserByEmail_def updateUserWhere_Inr [OF h])
qed








section \<open>Password updates\<close>






















lemma salt_of_sevens: "GenerateSalt (Some (replicate 16 7)) = Inr ''07070707070707070707070707070707''"
  unfolding GenerateSalt_def by code_simp






section \<open>Instances on the sample data\<close>

lemma unique_ok_single: "unique_ok [r]"
  by (simp add: unique_ok_def)

theorem Data_default_is_empty_mapping_witness:
  "CreateUser ''11111111-1111-4111-8111-111111111111'' (Some (replicate 16 7)) 1 alice [] =
     (None, created_user ''11111111-1111-4111-8111-111111111111'' (Some (replicate 16 7)) alice,
      [created_row 1 (created_user ''11111111-1111-4111-8111-111111111111''
                        (Some (replicate 16 7)) alice)])
   \<and> (Data alice = None \<or> Data alice = Some [])
   \<and> (\<exists>u. GetUserByID ''11111111-1111-4111-8111-111111111111''
              [created_row 1 (created_user ''11111111-1111-4111-8111-111111111111''
                                (Some (replicate 16 7)) alice)] = Inr u \<and> Data u = Some [])
   \<and> (\<exists>u. GetUserByUsername ''alice''
              [created_row 1 (created_user ''11111111-1111-4111-8111-111111111111''
                                (Some (replicate 16 7)) alice)] = Inr u \<and> Data u = Some [])
   \<and> (\<exists>u. GetUserByEmail ''a@x.com''
              [created_row 1 (created_user ''11111111-1111-4111-8111-111111111111''
                                (Some (replicate 16 7)) alice)] = Inr u \<and> Data u = Some [])
   \<and> unique_ok [alice_row\<lparr>Data := JSONInvalid\<rparr>]
   \<and> alice_row\<lparr>Data := JSONInvalid\<rparr> \<in> set [alice_row\<lparr>Data := JSONInvalid\<rparr>]
   \<and> json_Unmarshal (Data (alice_row\<lparr>Data := JSONInvalid\<rparr>)) = Inl ErrJSONSyntax
   \<and> (\<exists>u. GetUserByID ''11111111-1111-4111-8111-111111111111''
              [alice_row\<lparr>Data := JSONInvalid\<rparr>] = Inr u \<and> Data u = Some [])
   \<and> (\<exists>u. GetUserByUsername ''alice'' [alice_row\<lparr>Data := JSONInvalid\<rparr>] = Inr u
            \<and> Data u = Some [])
   \<and> (\<exists>u. GetUserByEmail ''a@x.com'' [alice_row\<lparr>Data := JSONInvalid\<rparr>] = Inr u
            \<and> Data u = Some [])"
proof -
  let ?A = "created_user ''11111111-1111-4111-8111-111111111111'' (Some (replicate 16 7)) alice"
  have first: "CreateUser ''11111111-1111-4111-8111-111111111111'' (Some (replicate 16 7)) 1 alice []
                 = (None, ?A, [created_row 1 ?A])"
    by (rule CreateUser_alice)
  have d: "Data alice = None \<or> Data alice = Some []"
    by (simp add: alice_def)
  have k: "ID ?A = ''11111111-1111-4111-8111-111111111111''" "Username ?A = ''alice''"
    "Email ?A = ''a@x.com''"
    by (simp_all add: created_user_keeps alice_def)
  let ?bad = "alice_row\<lparr>Data := JSONInvalid\<rparr>"
  have u: "unique_ok [?bad]" by (rule unique_ok_single)
  have m: "?bad \<in> set [?bad]" by simp
  have j: "json_Unmarshal (Data ?bad) = Inl ErrJSONSyntax" by simp
  have kb: "ID ?bad = ''11111111-1111-4111-8111-111111111111''" "Username ?bad = ''alice''"
    "Email ?bad = ''a@x.com''"
    by (simp_all add: alice_row_def)
  note t = Data_default_is_empty_mapping [where user = alice and tbl' = "[created_row 1 ?A]"
      and user' = ?A and new_uuid = "''11111111-1111-4111-8111-111111111111''"
      and rnd = "Some (replicate 16 7)" and now = 1]
  from t [where tbl = "[]"] first d
  have a: "(\<exists>u. GetUserByID (ID ?A) [created_row 1 ?A] = Inr u \<and> Data u = Some [])
        \<and> (\<exists>u. GetUserByUsername (Username ?A) [created_row 1 ?A] = Inr u \<and> Data u = Some [])
        \<and> (\<exists>u. GetUserByEmail (Email ?A) [created_row 1 ?A] = Inr u \<and> Data u = Some [])"
    by blast
  from t [where tbl = "[?bad]" and r = ?bad and e = ErrJSONSyntax] u m j
  have b: "(\<exists>u. GetUserByID (ID ?bad) [?bad] = Inr u \<and> Data u = Some [])
        \<and> (\<exists>u. GetUserByUsername (Username ?bad) [?bad] = Inr u \<and> Data u = Some [])
        \<and> (\<exists>u. GetUserByEmail (Email ?bad) [?bad] = Inr u \<and> Data u = Some [])"
    by blast
  show ?thesis
    using first d u m j a b unfolding k kb by (intro conjI) (blast | assumption)+
qed

theorem CreateUser_default_status_and_id_witness:
  "CreateUser ''11111111-1111-4111-8111-111111111111'' (Some (replicate 16 7)) 1 alice [] =
     (None, created_user ''11111111-1111-4111-8111-111111111111'' (Some (replicate 16 7)) alice,
      [created_row 1 (created_user ''11111111-1111-4111-8111-111111111111''
                        (Some (replicate 16 7)) alice)])
   \<and> ID alice = uuid_Nil \<and> Status alice = []
   \<and> (\<exists>row. [created_row 1 (created_user ''11111111-1111-4111-8111-111111111111''
                                (Some (replicate 16 7)) alice)] = [] @ [row]
          \<and> Status row = ''inactive''
          \<and> ID row = ''11111111-1111-4111-8111-111111111111'')"
proof -
  have first: "CreateUser ''11111111-1111-4111-8111-111111111111'' (Some (replicate 16 7)) 1 alice []
     = (None, created_user ''11111111-1111-4111-8111-111111111111'' (Some (replicate 16 7)) alice,
      [created_row 1 (created_user ''11111111-1111-4111-8111-111111111111''
                        (Some (replicate 16 7)) alice)])"
    by (rule CreateUser_alice)
  have a: "ID alice = uuid_Nil" "Status alice = []"
    by (simp_all add: alice_def)
  show ?thesis
    using CreateUser_default_status_and_id [OF first] first a
    by (simp add: UserStatusInactive_def)
qed

theorem CreateUser_argument_after_success_witness:
  "CreateUser ''11111111-1111-4111-8111-111111111111'' (Some (replicate 16 7)) 1 alice [] =
     (None, created_user ''11111111-1111-4111-8111-111111111111'' (Some (replicate 16 7)) alice,
      [created_row 1 (created_user ''11111111-1111-4111-8111-111111111111''
                        (Some (replicate 16 7)) alice)])
   \<and> ID (created_user ''11111111-1111-4111-8111-111111111111'' (Some (replicate 16 7)) alice)
       = ''11111111-1111-4111-8111-111111111111''
   \<and> Status (created_user ''11111111-1111-4111-8111-111111111111'' (Some (replicate 16 7)) alice)
       = ''inactive''
   \<and> GenerateSalt (Some (replicate 16 7))
       = Inr (Salt (created_user ''11111111-1111-4111-8111-111111111111''
                      (Some (replicate 16 7)) alice))
   \<and> Password (created_user ''11111111-1111-4111-8111-111111111111'' (Some (replicate 16 7)) alice)
       = HashPassword ''p1''
           (Salt (created_user ''11111111-1111-4111-8111-111111111111''
                    (Some (replicate 16 7)) alice))
   \<and> Name (created_user ''11111111-1111-4111-8111-111111111111'' (Some (replicate 16 7)) alice)
       = ''Alice''"
proof -
  have first: "CreateUser ''11111111-1111-4111-8111-111111111111'' (Some (replicate 16 7)) 1 alice []
     = (None, created_user ''11111111-1111-4111-8111-111111111111'' (Some (replicate 16 7)) alice,
      [created_row 1 (created_user ''11111111-1111-4111-8111-111111111111''
                        (Some (replicate 16 7)) alice)])"
    by (rule CreateUser_alice)
  have a: "ID alice = uuid_Nil" "Status alice = []" "Salt alice = []" "Password alice = ''p1''"
    "Name alice = ''Alice''"
    by (simp_all add: alice_def)
  show ?thesis
    using CreateUser_argument_after_success [OF first] first
    by (simp add: a DefaultUserStatus_def UserStatusInactive_def)
qed

theorem Verify_ignores_enabled_witness:
  "unique_ok [alice_row\<lparr>Enabled := False\<rparr>]
   \<and> alice_row\<lparr>Enabled := False\<rparr> \<in> set [alice_row\<lparr>Enabled := False\<rparr>]
   \<and> \<not> Enabled (alice_row\<lparr>Enabled := False\<rparr>)
   \<and> VerifyPasswordByID ''11111111-1111-4111-8111-111111111111'' ''p1''
        [alice_row\<lparr>Enabled := False\<rparr>] = None
   \<and> VerifyPasswordByUsername ''alice'' ''p1'' [alice_row\<lparr>Enabled := False\<rparr>] = None
   \<and> VerifyPasswordByEmail ''a@x.com'' ''p1'' [alice_row\<lparr>Enabled := False\<rparr>] = None"
proof -
  let ?d = "alice_row\<lparr>Enabled := False\<rparr>"
  have u: "unique_ok [?d]" by (rule unique_ok_single)
  have m: "?d \<in> set [?d]" by simp
  have e: "\<not> Enabled ?d" by simp
  have k: "ID ?d = ''11111111-1111-4111-8111-111111111111''" "Username ?d = ''alice''"
    "Email ?d = ''a@x.com''"
    by (simp_all add: alice_row_def)
  have mt: "Matches ''p1'' (Salt alice_row) (Password alice_row)"
    by (simp add: alice_row_def Matches_def)
  show ?thesis
    using Verify_ignores_enabled [OF u m e, of "''p1''"] u m e mt unfolding k by simp
qed



theorem Update_normalizes_password_witness:
  "GenerateSalt None = Inl ErrGenerateSalt
   \<and> UpdateUserByID None ''11111111-1111-4111-8111-111111111111'' (fmupd ''Password'' (IString ''p2'') fmempty) [alice_row] = (Some ErrGenerateSalt, (fmupd ''Password'' (IString ''p2'') fmempty), [alice_row])
   \<and> fmlookup (fmupd ''Password'' (IString ''p2'') fmempty) ''Password'' = Some (IString ''p2'')
   \<and> length ''p2'' < 64
   \<and> GenerateSalt (Some (replicate 16 7)) = Inr ''07070707070707070707070707070707''
   \<and> (\<exists>cs'. fmlookup cs' ''Password'' = Some (IString (HashPassword ''p2'' ''07070707070707070707070707070707''))
          \<and> fmlookup cs' ''Salt'' = Some (IString ''07070707070707070707070707070707'')
          \<and> UpdateUserByID (Some (replicate 16 7)) ''11111111-1111-4111-8111-111111111111'' (fmupd ''Password'' (IString ''p2'') fmempty) [alice_row] =
               (outcome (fst (gorm_Updates (IdEq ''11111111-1111-4111-8111-111111111111'') cs' [alice_row])), cs',
                snd (gorm_Updates (IdEq ''11111111-1111-4111-8111-111111111111'') cs' [alice_row])))
   \<and> fmlookup (fmupd ''Password'' (IString (replicate 64 CHR ''a'')) fmempty) ''Password'' = Some (IString (replicate 64 CHR ''a''))
   \<and> 64 \<le> length (replicate 64 CHR ''a'')
   \<and> (\<exists>cs'. fmlookup cs' ''Password'' = Some (IString (replicate 64 CHR ''a''))
          \<and> fmlookup cs' ''Salt'' = fmlookup (fmupd ''Password'' (IString (replicate 64 CHR ''a'')) fmempty) ''Salt''
          \<and> UpdateUserByID (Some (replicate 16 7)) ''11111111-1111-4111-8111-111111111111'' (fmupd ''Password'' (IString (replicate 64 CHR ''a'')) fmempty) [alice_row] =
               (outcome (fst (gorm_Updates (IdEq ''11111111-1111-4111-8111-111111111111'') cs' [alice_row])), cs',
                snd (gorm_Updates (IdEq ''11111111-1111-4111-8111-111111111111'') cs' [alice_row])))"
proof -
  have pw: "fmlookup (fmupd ''Password'' (IString ''p2'') fmempty) ''Password'' = Some (IString ''p2'')" by simp
  have short: "length ''p2'' < 64" by simp
  have pl: "fmlookup (fmupd ''Password'' (IString (replicate 64 CHR ''a'')) fmempty) ''Password'' = Some (IString (replicate 64 CHR ''a''))" by simp
  have long: "64 \<le> length (replicate 64 CHR ''a'')" by simp
  from Update_normalizes_password [where cs = "fmupd ''Password'' (IString ''p2'') fmempty" and p = "''p2''" and s = "''07070707070707070707070707070707''"
      and rnd = "Some (replicate 16 7)" and ident = "''11111111-1111-4111-8111-111111111111''" and tbl = "[alice_row]"]
    pw short salt_of_sevens
  have a: "\<exists>cs'. fmlookup cs' ''Password'' = Some (IString (HashPassword ''p2'' ''07070707070707070707070707070707''))
          \<and> fmlookup cs' ''Salt'' = Some (IString ''07070707070707070707070707070707'')
          \<and> UpdateUserByID (Some (replicate 16 7)) ''11111111-1111-4111-8111-111111111111'' (fmupd ''Password'' (IString ''p2'') fmempty) [alice_row] =
               (outcome (fst (gorm_Updates (IdEq ''11111111-1111-4111-8111-111111111111'') cs' [alice_row])), cs',
                snd (gorm_Updates (IdEq ''11111111-1111-4111-8111-111111111111'') cs' [alice_row]))"
    by blast
  from Update_normalizes_password [where cs = "fmupd ''Password'' (IString (replicate 64 CHR ''a'')) fmempty" and p = "replicate 64 CHR ''a''"
      and rnd = "Some (replicate 16 7)" and ident = "''11111111-1111-4111-8111-111111111111''" and tbl = "[alice_row]"]
    pl long
  have b: "\<exists>cs'. fmlookup cs' ''Password'' = Some (IString (replicate 64 CHR ''a''))
          \<and> fmlookup cs' ''Salt'' = fmlookup (fmupd ''Password'' (IString (replicate 64 CHR ''a'')) fmempty) ''Salt''
          \<and> UpdateUserByID (Some (replicate 16 7)) ''11111111-1111-4111-8111-111111111111'' (fmupd ''Password'' (IString (replicate 64 CHR ''a'')) fmempty) [alice_row] =
               (outcome (fst (gorm_Updates (IdEq ''11111111-1111-4111-8111-111111111111'') cs' [alice_row])), cs',
                snd (gorm_Updates (IdEq ''11111111-1111-4111-8111-111111111111'') cs' [alice_row]))"
    by blast
  have gf: "GenerateSalt None = Inl ErrGenerateSalt"
    by (simp add: GenerateSalt_def)
  from Update_normalizes_password [where cs = "fmupd ''Password'' (IString ''p2'') fmempty" and p = "''p2''"
      and rnd = None and e = ErrGenerateSalt and ident = "''11111111-1111-4111-8111-111111111111''" and tbl = "[alice_row]"]
    pw short gf
  have c: "UpdateUserByID None ''11111111-1111-4111-8111-111111111111'' (fmupd ''Password'' (IString ''p2'') fmempty) [alice_row] = (Some ErrGenerateSalt, (fmupd ''Password'' (IString ''p2'') fmempty), [alice_row])"
    by blast
  show ?thesis
    using gf c pw short salt_of_sevens a pl long b by (intro conjI)
qed



end
